theory Spec2Isabelle
  imports Complex_Main
begin

section \<open>Data model (src/types/index.ts)\<close>

text \<open>
  The source computes with JavaScript numbers (IEEE doubles). Prices, cash and share
  quantities are modelled as \<^typ>\<open>real\<close>, bar indices, counters and millisecond
  timestamps as \<^typ>\<open>int\<close>. Reading a property of \<open>undefined\<close> raises
  \<open>TypeError\<close> in the source and is the error \<open>TypeError\<close> here. Where a share count
  or an indicator value of the source would be \<open>Infinity\<close> or \<open>NaN\<close> (a division by a
  zero price or a zero period), the model stops with the marker \<open>NonFinite\<close>; the source
  does not raise there.
\<close>

datatype error = TypeError | NonFinite

text \<open>
  A number that may be \<open>Infinity\<close>, \<open>-Infinity\<close> or \<open>NaN\<close>: the average cost of a
  position, which the source divides by the new share count. \<open>NotFinite\<close> stands for any
  of the three.
\<close>

datatype jsnumber = Finite real | NotFinite

record OHLCVBar =
  time :: string
  open_price :: real
  high :: real
  low :: real
  close :: real
  volume :: real

record StockData =
  ticker :: string
  name :: "string option"
  sector :: "string option"
  bars :: "OHLCVBar list"

record StockMetadata =
  meta_ticker :: string
  meta_name :: "string option"
  meta_sector :: "string option"
  startDate :: string
  endDate :: string
  barCount :: int

datatype ActionType = ActSkip | ActBuy | ActSell

datatype Direction = Up | Down | Flat

datatype TradeType = TradeBuy | TradeSell

record Position =
  shares :: real
  averageCost :: jsnumber
  entryBarIndex :: int

record Trade =
  trade_type :: TradeType
  trade_barIndex :: int
  trade_price :: real
  trade_shares :: real
  trade_timestamp :: int

record HoldingPeriod =
  hp_entryBarIndex :: int
  exitBarIndex :: "int option"
  entryPrice :: real
  exitPrice :: "real option"

record TurnOutcome =
  out_turnNumber :: int
  barIndex :: int
  action :: ActionType
  positionBeforeAction :: "Position option"
  positionAfterAction :: "Position option"
  inferredPrediction :: Direction
  actualDirection :: Direction
  isWin :: "bool option"
  priceAtAction :: real
  priceNextBar :: real

record SessionStats =
  totalTurns :: int
  totalTrades :: int
  wins :: int
  losses :: int
  flats :: int
  currentStreak :: int
  bestStreak :: int
  worstStreak :: int
  chartsViewed :: int
  decisionTimes :: "int list"

record GameState =
  currentStock :: "StockData option"
  currentBarIndex :: int
  cash :: real
  position :: "Position option"
  trades :: "Trade list"
  holdingPeriods :: "HoldingPeriod list"
  turnOutcomes :: "TurnOutcome list"
  turnNumber :: int
  turnStartTime :: "int option"
  sessionStats :: SessionStats
  isLoading :: bool
  lastAction :: "ActionType option"
  lastOutcome :: "TurnOutcome option"
  showRevealCard :: bool
  revealedStock :: "StockMetadata option"

record LineData =
  line_time :: string
  line_value :: real

section \<open>Turn engine (src/stores/gameStore.ts)\<close>

definition INITIAL_CASH :: real where
  "INITIAL_CASH = 10000"

definition EPSILON :: real where
  "EPSILON = 5 / 10000"

definition initialSessionStats :: SessionStats where
  "initialSessionStats =
     \<lparr>totalTurns = 0, totalTrades = 0, wins = 0, losses = 0, flats = 0,
      currentStreak = 0, bestStreak = 0, worstStreak = 0, chartsViewed = 0,
      decisionTimes = []\<rparr>"

definition initialState :: GameState where
  "initialState =
     \<lparr>currentStock = None, currentBarIndex = 0, cash = INITIAL_CASH, position = None,
      trades = [], holdingPeriods = [], turnOutcomes = [], turnNumber = 0,
      turnStartTime = None, sessionStats = initialSessionStats, isLoading = False,
      lastAction = None, lastOutcome = None, showRevealCard = False,
      revealedStock = None\<rparr>"

text \<open>\<open>bars[i]\<close>: an index outside the array reads \<open>undefined\<close>, here \<open>None\<close>.\<close>

definition bar_at :: "OHLCVBar list \<Rightarrow> int \<Rightarrow> OHLCVBar option" where
  "bar_at bs i = (if 0 \<le> i \<and> i < int (length bs) then Some (bs ! nat i) else None)"

text \<open>
  \<open>getDirection\<close>. For \<open>currentClose = 0\<close> the quotient of the source is
  \<open>+Infinity\<close>, \<open>-Infinity\<close> or \<open>NaN\<close> by the sign of \<open>nextClose\<close>; the
  comparisons with \<open>EPSILON\<close> then give up, down and flat, written out in the first branch.
\<close>

definition getDirection :: "real \<Rightarrow> real \<Rightarrow> Direction" where
  "getDirection currentClose nextClose =
     (if currentClose = 0
      then (if nextClose > 0 then Up else if nextClose < 0 then Down else Flat)
      else (let change = (nextClose - currentClose) / currentClose in
            if change > EPSILON then Up
            else if change < - EPSILON then Down
            else Flat))"

definition inferPrediction :: "Position option \<Rightarrow> Direction" where
  "inferPrediction p =
     (case p of None \<Rightarrow> Down | Some q \<Rightarrow> (if shares q > 0 then Up else Down))"

definition loadStock :: "StockData \<Rightarrow> int \<Rightarrow> int \<Rightarrow> GameState \<Rightarrow> GameState" where
  "loadStock stock startIndex now s =
     s\<lparr>currentStock := Some stock,
       currentBarIndex := startIndex,
       position := None,
       trades := [],
       holdingPeriods := [],
       turnOutcomes := [],
       turnNumber := 0,
       turnStartTime := Some now,
       lastAction := None,
       lastOutcome := None,
       showRevealCard := False,
       revealedStock := None,
       sessionStats := (sessionStats s)\<lparr>chartsViewed := chartsViewed (sessionStats s) + 1\<rparr>\<rparr>"

definition advanceBar :: "GameState \<Rightarrow> GameState" where
  "advanceBar s = s\<lparr>currentBarIndex := currentBarIndex s + 1, turnNumber := turnNumber s + 1\<rparr>"

definition calculateOutcome :: "GameState \<Rightarrow> error + TurnOutcome option" where
  "calculateOutcome s =
     (case currentStock s of
        None \<Rightarrow> Inr None
      | Some stock \<Rightarrow>
          (case bar_at (bars stock) (currentBarIndex s + 1) of
             None \<Rightarrow> Inr None
           | Some nextBar \<Rightarrow>
               (case bar_at (bars stock) (currentBarIndex s) of
                  None \<Rightarrow> Inl TypeError
                | Some currentBar \<Rightarrow>
                    (let direction = getDirection (close currentBar) (close nextBar);
                         prediction = inferPrediction (position s);
                         win = (if direction \<noteq> Flat then Some (prediction = direction) else None)
                     in Inr (Some
                          \<lparr>out_turnNumber = turnNumber s,
                           barIndex = currentBarIndex s,
                           action = (case lastAction s of None \<Rightarrow> ActSkip | Some a \<Rightarrow> a),
                           positionBeforeAction = position s,
                           positionAfterAction = position s,
                           inferredPrediction = prediction,
                           actualDirection = direction,
                           isWin = win,
                           priceAtAction = close currentBar,
                           priceNextBar = close nextBar\<rparr>)))))"

text \<open>The statistics block of \<open>recordTurnOutcome\<close>, on the copy \<open>stats\<close>.\<close>

definition recordStats :: "bool option \<Rightarrow> SessionStats \<Rightarrow> SessionStats" where
  "recordStats w stats =
     (case w of
        Some True \<Rightarrow>
          (let cs = (if currentStreak stats > 0 then currentStreak stats + 1 else 1) in
           stats\<lparr>wins := wins stats + 1, currentStreak := cs,
                 bestStreak := max (bestStreak stats) cs\<rparr>)
      | Some False \<Rightarrow>
          (let cs = (if currentStreak stats < 0 then currentStreak stats - 1 else - 1) in
           stats\<lparr>losses := losses stats + 1, currentStreak := cs,
                 worstStreak := min (worstStreak stats) cs\<rparr>)
      | None \<Rightarrow> stats\<lparr>flats := flats stats + 1\<rparr>)"

definition recordTurnOutcome :: "TurnOutcome \<Rightarrow> GameState \<Rightarrow> GameState" where
  "recordTurnOutcome outcome s =
     s\<lparr>turnOutcomes := turnOutcomes s @ [outcome],
       lastOutcome := Some outcome,
       sessionStats := recordStats (isWin outcome) (sessionStats s)\<rparr>"

text \<open>
  \<open>state.turnStartTime ? Date.now() - state.turnStartTime : 0\<close>: a null or zero start
  time is falsy.
\<close>

definition decisionTimeOf :: "int \<Rightarrow> GameState \<Rightarrow> int" where
  "decisionTimeOf now s =
     (case turnStartTime s of None \<Rightarrow> 0 | Some t \<Rightarrow> (if t = 0 then 0 else now - t))"

text \<open>
  The tail shared word for word by \<open>skip\<close>, \<open>buy\<close> and \<open>sell\<close>: compute the outcome,
  advance the bar, record the outcome under the action's tag, update the statistics
  (\<open>totalTrades\<close> only for buy and sell) and restart the turn timer. A \<open>TypeError\<close> raised
  by \<open>calculateOutcome\<close> leaves the store as it is at that point.
\<close>

definition completeTurn :: "ActionType \<Rightarrow> int \<Rightarrow> int \<Rightarrow> GameState \<Rightarrow> error option \<times> GameState" where
  "completeTurn act decisionTime now s =
     (case calculateOutcome s of
        Inl e \<Rightarrow> (Some e, s)
      | Inr outcome \<Rightarrow>
          (let s1 = advanceBar s;
               s2 = (case outcome of
                       None \<Rightarrow> s1
                     | Some out \<Rightarrow> recordTurnOutcome (out\<lparr>action := act\<rparr>) s1);
               st = sessionStats s2
           in (None,
               s2\<lparr>sessionStats :=
                    st\<lparr>totalTurns := totalTurns st + 1,
                       totalTrades := (if act = ActSkip then totalTrades st
                                       else totalTrades st + 1),
                       decisionTimes := decisionTimes st @ [decisionTime]\<rparr>,
                  turnStartTime := Some now\<rparr>)))"

definition skip :: "int \<Rightarrow> int \<Rightarrow> GameState \<Rightarrow> error option \<times> GameState" where
  "skip now1 now2 s =
     (case currentStock s of
        None \<Rightarrow> (None, s)
      | Some stock \<Rightarrow>
          completeTurn ActSkip (decisionTimeOf now1 s) now2 (s\<lparr>lastAction := Some ActSkip\<rparr>))"

text \<open>
  Underflow. The smallest positive double is \<open>2^-1074\<close>, and rounding to nearest sends
  every real of magnitude at most \<open>2^-1075\<close> to zero. A product or quotient of \<open>buy\<close>,
  \<open>sell\<close> and \<open>switchStock\<close> is therefore zero in the source when it is that small;
  \<open>fl\<close> writes this out and keeps every other result exact. Sums and differences of
  doubles are zero only when the exact result is.
\<close>

definition fl :: "real \<Rightarrow> real" where
  "fl x = (if \<bar>x\<bar> \<le> 1 / 2 ^ 1075 then 0 else x)"

text \<open>
  \<open>buy\<close>. The price is the close of the current bar (\<open>TypeError\<close> when the index is
  outside the bars). With a zero price, which the data model's positive closes exclude,
  the bought share count of the source is \<open>Infinity\<close> or \<open>NaN\<close>: the model stops with
  \<open>NonFinite\<close>. With a new share count of zero the source divides by zero for the
  average cost only, and stores the position with that average cost.
\<close>

definition buy :: "int \<Rightarrow> int \<Rightarrow> int \<Rightarrow> real \<Rightarrow> GameState \<Rightarrow> error option \<times> GameState" where
  "buy now1 now2 now3 percentage s =
     (case currentStock s of
        None \<Rightarrow> (None, s)
      | Some stock \<Rightarrow>
          if percentage \<le> 0 \<or> percentage > 100 then (None, s)
          else if cash s \<le> 0 then (None, s)
          else
            (case bar_at (bars stock) (currentBarIndex s) of
               None \<Rightarrow> (Some TypeError, s)
             | Some currentBar \<Rightarrow>
                 (let price = close currentBar;
                      amountToSpend = fl (cash s * fl (percentage / 100));
                      sharesToBuy = fl (amountToSpend / price);
                      decisionTime = decisionTimeOf now1 s;
                      trade = \<lparr>trade_type = TradeBuy, trade_barIndex = currentBarIndex s,
                               trade_price = price, trade_shares = sharesToBuy,
                               trade_timestamp = now2\<rparr>;
                      existingShares = (case position s of None \<Rightarrow> 0 | Some p \<Rightarrow> shares p);
                      existingCost = (case position s of None \<Rightarrow> Finite 0
                                      | Some p \<Rightarrow> averageCost p);
                      newShares = existingShares + sharesToBuy;
                      newAverageCost =
                        (case existingCost of
                           NotFinite \<Rightarrow> NotFinite
                         | Finite cost \<Rightarrow>
                             if newShares = 0 then NotFinite
                             else Finite (fl ((fl (existingShares * cost)
                                               + fl (sharesToBuy * price)) / newShares)));
                      newPosition =
                        \<lparr>shares = newShares, averageCost = newAverageCost,
                         entryBarIndex = (case position s of None \<Rightarrow> currentBarIndex s
                                          | Some p \<Rightarrow> entryBarIndex p)\<rparr>;
                      hps = (if (case position s of None \<Rightarrow> True | Some p \<Rightarrow> shares p = 0)
                             then holdingPeriods s @
                                  [\<lparr>hp_entryBarIndex = currentBarIndex s, exitBarIndex = None,
                                    entryPrice = price, exitPrice = None\<rparr>]
                             else holdingPeriods s)
                  in if price = 0 then (Some NonFinite, s)
                     else completeTurn ActBuy decisionTime now3
                            (s\<lparr>cash := cash s - amountToSpend,
                               position := Some newPosition,
                               trades := trades s @ [trade],
                               holdingPeriods := hps,
                               lastAction := Some ActBuy\<rparr>))))"

text \<open>
  \<open>holdingPeriods.map((hp, idx) => ...)\<close> of \<open>sell\<close> and \<open>switchStock\<close>: the last
  period gets its exit fields when its exit index is null, every other period is kept.
\<close>

definition closeLastHolding :: "int \<Rightarrow> real \<Rightarrow> HoldingPeriod list \<Rightarrow> HoldingPeriod list" where
  "closeLastHolding idx price hps =
     map (\<lambda>(i, hp). if i = length hps - 1 \<and> exitBarIndex hp = None
                     then hp\<lparr>exitBarIndex := Some idx, exitPrice := Some price\<rparr>
                     else hp)
         (enumerate 0 hps)"

definition sell :: "int \<Rightarrow> int \<Rightarrow> int \<Rightarrow> real \<Rightarrow> GameState \<Rightarrow> error option \<times> GameState" where
  "sell now1 now2 now3 percentage s =
     (case currentStock s of
        None \<Rightarrow> (None, s)
      | Some stock \<Rightarrow>
          if percentage \<le> 0 \<or> percentage > 100 then (None, s)
          else
            (case position s of
               None \<Rightarrow> (None, s)
             | Some pos \<Rightarrow>
                 if shares pos \<le> 0 then (None, s)
                 else
                   (case bar_at (bars stock) (currentBarIndex s) of
                      None \<Rightarrow> (Some TypeError, s)
                    | Some currentBar \<Rightarrow>
                        (let price = close currentBar;
                             sharesToSell = fl (shares pos * fl (percentage / 100));
                             proceeds = fl (sharesToSell * price);
                             decisionTime = decisionTimeOf now1 s;
                             trade = \<lparr>trade_type = TradeSell,
                                      trade_barIndex = currentBarIndex s,
                                      trade_price = price, trade_shares = sharesToSell,
                                      trade_timestamp = now2\<rparr>;
                             remainingShares = shares pos - sharesToSell;
                             newPosition = (if remainingShares > 1 / 10000
                                            then Some (pos\<lparr>shares := remainingShares\<rparr>)
                                            else None);
                             hps = (if newPosition = None
                                    then closeLastHolding (currentBarIndex s) price
                                           (holdingPeriods s)
                                    else holdingPeriods s)
                         in completeTurn ActSell decisionTime now3
                              (s\<lparr>cash := cash s + proceeds,
                                 position := newPosition,
                                 trades := trades s @ [trade],
                                 holdingPeriods := hps,
                                 lastAction := Some ActSell\<rparr>)))))"

definition revealOf :: "StockData \<Rightarrow> error + StockMetadata" where
  "revealOf stock =
     (case bars stock of
        [] \<Rightarrow> Inl TypeError
      | b # bs \<Rightarrow>
          Inr \<lparr>meta_ticker = ticker stock, meta_name = name stock,
               meta_sector = sector stock, startDate = time b,
               endDate = time (last (bars stock)),
               barCount = int (length (bars stock))\<rparr>)"

definition switchStock :: "int \<Rightarrow> GameState \<Rightarrow> error option \<times> GameState" where
  "switchStock now s =
     (case currentStock s of
        None \<Rightarrow> (None, s)
      | Some stock \<Rightarrow>
          (case (case position s of None \<Rightarrow> None
                 | Some p \<Rightarrow> (if shares p > 0 then Some p else None)) of
             Some pos \<Rightarrow>
               (case bar_at (bars stock) (currentBarIndex s) of
                  None \<Rightarrow> (Some TypeError, s)
                | Some currentBar \<Rightarrow>
                    (let sellPrice = close currentBar;
                         trade = \<lparr>trade_type = TradeSell, trade_barIndex = currentBarIndex s,
                                  trade_price = sellPrice, trade_shares = shares pos,
                                  trade_timestamp = now\<rparr>;
                         updatedHoldingPeriods =
                           closeLastHolding (currentBarIndex s) sellPrice (holdingPeriods s)
                     in (case revealOf stock of
                           Inl e \<Rightarrow> (Some e, s)
                         | Inr revealed \<Rightarrow>
                             (None,
                              s\<lparr>cash := cash s + fl (shares pos * sellPrice),
                                position := None,
                                trades := trades s @ [trade],
                                holdingPeriods := updatedHoldingPeriods,
                                showRevealCard := True,
                                revealedStock := Some revealed,
                                sessionStats := (sessionStats s)
                                  \<lparr>totalTrades := totalTrades (sessionStats s) + 1\<rparr>\<rparr>))))
           | None \<Rightarrow>
               (case revealOf stock of
                  Inl e \<Rightarrow> (Some e, s)
                | Inr revealed \<Rightarrow>
                    (None, s\<lparr>showRevealCard := True, revealedStock := Some revealed\<rparr>))))"

section \<open>Indicator library (src/utils/indicators.ts)\<close>

text \<open>
  The period is an integer. Each function returns \<open>Inl TypeError\<close> where the source reads
  \<open>.close\<close> or \<open>.time\<close> of a bar outside the array.
\<close>

text \<open>
  \<open>calculateSMA\<close>: for \<open>i\<close> from \<open>period - 1\<close> below \<open>bars.length\<close>, the sum of the
  \<open>period\<close> closes ending at \<open>i\<close>, divided by \<open>period\<close>. With \<open>period \<le> 0\<close> the first
  index is negative and \<open>bars[i].time\<close> raises.
\<close>

definition windowSum :: "OHLCVBar list \<Rightarrow> nat \<Rightarrow> nat \<Rightarrow> real" where
  "windowSum bs p i = foldl (\<lambda>sum j. sum + close (bs ! (i - j))) 0 [0..<p]"

definition calculateSMA :: "OHLCVBar list \<Rightarrow> int \<Rightarrow> error + LineData list" where
  "calculateSMA bs period =
     (if period \<le> 0 then Inl TypeError
      else Inr (map (\<lambda>i. \<lparr>line_time = time (bs ! i),
                           line_value = windowSum bs (nat period) i / real_of_int period\<rparr>)
                    [nat period - 1..<length bs]))"

text \<open>
  \<open>calculateEMA\<close>: the seed is the mean of the first \<open>period\<close> closes, dated at bar
  \<open>period - 1\<close>; reading \<open>bars[i].close\<close> raises when there are fewer than \<open>period\<close>
  bars, and \<open>bars[period - 1].time\<close> raises when \<open>period \<le> 0\<close>.
\<close>

fun emaLoop :: "real \<Rightarrow> real \<Rightarrow> OHLCVBar list \<Rightarrow> LineData list" where
  "emaLoop multiplier ema [] = []"
| "emaLoop multiplier ema (b # bs) =
     (let ema' = (close b - ema) * multiplier + ema in
      \<lparr>line_time = time b, line_value = ema'\<rparr> # emaLoop multiplier ema' bs)"

definition calculateEMA :: "OHLCVBar list \<Rightarrow> int \<Rightarrow> error + LineData list" where
  "calculateEMA bs period =
     (if period \<le> 0 \<or> int (length bs) < period then Inl TypeError
      else
        (let multiplier = 2 / (real_of_int period + 1);
             sum = foldl (\<lambda>sum i. sum + close (bs ! i)) 0 [0..<nat period];
             ema = sum / real_of_int period
         in Inr (\<lparr>line_time = time (bs ! (nat period - 1)), line_value = ema\<rparr>
                 # emaLoop multiplier ema (drop (nat period) bs))))"

text \<open>
  \<open>calculateBollingerBands\<close>: the three series \<open>upper\<close>, \<open>middle\<close>, \<open>lower\<close>, one point
  each per index from \<open>period - 1\<close>.
\<close>

record Bands =
  upper :: "LineData list"
  middle :: "LineData list"
  lower :: "LineData list"

definition windowStdDev :: "OHLCVBar list \<Rightarrow> nat \<Rightarrow> nat \<Rightarrow> real \<Rightarrow> real" where
  "windowStdDev bs p i sma =
     sqrt (foldl (\<lambda>acc j. acc + (close (bs ! (i - j)) - sma) ^ 2) 0 [0..<p] / real p)"

definition calculateBollingerBands :: "OHLCVBar list \<Rightarrow> int \<Rightarrow> real \<Rightarrow> error + Bands" where
  "calculateBollingerBands bs period stdDevMultiplier =
     (if period \<le> 0 then Inl TypeError
      else
        (let idxs = [nat period - 1..<length bs];
             sma = (\<lambda>i. windowSum bs (nat period) i / real_of_int period);
             stdDev = (\<lambda>i. windowStdDev bs (nat period) i (sma i))
         in Inr \<lparr>upper = map (\<lambda>i. \<lparr>line_time = time (bs ! i),
                                     line_value = sma i + stdDev i * stdDevMultiplier\<rparr>) idxs,
                 middle = map (\<lambda>i. \<lparr>line_time = time (bs ! i), line_value = sma i\<rparr>) idxs,
                 lower = map (\<lambda>i. \<lparr>line_time = time (bs ! i),
                                     line_value = sma i - stdDev i * stdDevMultiplier\<rparr>) idxs\<rparr>))"

text \<open>
  \<open>calculateRSI\<close>: \<open>gains\<close> and \<open>losses\<close> hold one entry per pair of neighbouring bars.
  The first value is dated \<open>bars[period].time\<close>, which raises unless there are more than
  \<open>period\<close> bars. With \<open>period = 0\<close> and a bar present the source divides zero by zero.
\<close>

definition gainsOf :: "OHLCVBar list \<Rightarrow> real list" where
  "gainsOf bs = map (\<lambda>i. let change = close (bs ! i) - close (bs ! (i - 1)) in
                          if change > 0 then change else 0) [1..<length bs]"

definition lossesOf :: "OHLCVBar list \<Rightarrow> real list" where
  "lossesOf bs = map (\<lambda>i. let change = close (bs ! i) - close (bs ! (i - 1)) in
                           if change < 0 then - change else 0) [1..<length bs]"

definition rsiValue :: "real \<Rightarrow> real \<Rightarrow> real" where
  "rsiValue avgGain avgLoss =
     (let rs = (if avgLoss = 0 then 100 else avgGain / avgLoss) in 100 - 100 / (1 + rs))"

fun rsiLoop :: "real \<Rightarrow> real \<Rightarrow> real \<Rightarrow> (real \<times> real \<times> OHLCVBar) list \<Rightarrow> LineData list" where
  "rsiLoop p avgGain avgLoss [] = []"
| "rsiLoop p avgGain avgLoss ((g, l, b) # rest) =
     (let avgGain' = (avgGain * (p - 1) + g) / p;
          avgLoss' = (avgLoss * (p - 1) + l) / p
      in \<lparr>line_time = time b, line_value = rsiValue avgGain' avgLoss'\<rparr>
         # rsiLoop p avgGain' avgLoss' rest)"

definition calculateRSI :: "OHLCVBar list \<Rightarrow> int \<Rightarrow> error + LineData list" where
  "calculateRSI bs period =
     (if period < 0 \<or> int (length bs) \<le> period then Inl TypeError
      else if period = 0 then Inl NonFinite
      else
        (let gains = gainsOf bs;
             losses = lossesOf bs;
             n = nat period;
             avgGain = foldl (+) 0 (take n gains) / real_of_int period;
             avgLoss = foldl (+) 0 (take n losses) / real_of_int period
         in Inr (\<lparr>line_time = time (bs ! n), line_value = rsiValue avgGain avgLoss\<rparr>
                 # rsiLoop (real_of_int period) avgGain avgLoss
                     (zip (drop n gains) (zip (drop n losses) (drop (n + 1) bs))))))"

text \<open>\<open>calculateVWAP\<close>: one point per bar, from the running sums.\<close>

fun vwapLoop :: "real \<Rightarrow> real \<Rightarrow> OHLCVBar list \<Rightarrow> LineData list" where
  "vwapLoop cumulativeTPV cumulativeVolume [] = []"
| "vwapLoop cumulativeTPV cumulativeVolume (b # bs) =
     (let typicalPrice = (high b + low b + close b) / 3;
          cumulativeTPV' = cumulativeTPV + typicalPrice * volume b;
          cumulativeVolume' = cumulativeVolume + volume b
      in \<lparr>line_time = time b,
          line_value = (if cumulativeVolume' > 0 then cumulativeTPV' / cumulativeVolume'
                        else typicalPrice)\<rparr>
         # vwapLoop cumulativeTPV' cumulativeVolume' bs)"

definition calculateVWAP :: "OHLCVBar list \<Rightarrow> LineData list" where
  "calculateVWAP bs = vwapLoop 0 0 bs"

section \<open>Concrete scenarios\<close>

definition sampleOutcome :: "bool option \<Rightarrow> TurnOutcome" where
  "sampleOutcome w =
     \<lparr>out_turnNumber = 0, barIndex = 60, action = ActSkip, positionBeforeAction = None,
      positionAfterAction = None, inferredPrediction = Down,
      actualDirection = (case w of None \<Rightarrow> Flat | Some True \<Rightarrow> Down | Some False \<Rightarrow> Up),
      isWin = w, priceAtAction = 100, priceNextBar = 100\<rparr>"

definition risingBars :: "OHLCVBar list" where
  "risingBars =
     [\<lparr>time = ''2024-01-02'', open_price = 1, high = 1, low = 1, close = 1, volume = 0\<rparr>,
      \<lparr>time = ''2024-01-03'', open_price = 2, high = 2, low = 2, close = 2, volume = 10\<rparr>,
      \<lparr>time = ''2024-01-04'', open_price = 3, high = 3, low = 3, close = 3, volume = 10\<rparr>,
      \<lparr>time = ''2024-01-05'', open_price = 4, high = 4, low = 4, close = 4, volume = 20\<rparr>]"

text \<open>
  The round trip of the specification: 200 bars, start index 60, close 100 at bar 60 and
  105 at bar 62; buy 50 percent, skip, sell 100 percent.
\<close>

definition demoBar :: "nat \<Rightarrow> OHLCVBar" where
  "demoBar i =
     \<lparr>time = ''day-'' @ [''0123456789'' ! (i div 100), ''0123456789'' ! (i div 10 mod 10),
                         ''0123456789'' ! (i mod 10)],
      open_price = 100, high = 110, low = 90,
      close = (if i = 60 then 100 else if i = 62 then 105 else 102),
      volume = 1000\<rparr>"

definition demoStock :: StockData where
  "demoStock = \<lparr>ticker = ''DEMO'', name = None, sector = None, bars = map demoBar [0..<200]\<rparr>"

definition freshState :: GameState where
  "freshState = loadStock demoStock 60 1000 initialState"

definition afterBuy :: GameState where
  "afterBuy = snd (buy 2000 2001 2002 50 freshState)"

definition afterSkip :: GameState where
  "afterSkip = snd (skip 3000 3001 afterBuy)"

definition afterSell :: GameState where
  "afterSell = snd (sell 4000 4001 4002 100 afterSkip)"

text \<open>
  The literal \<open>5e-324\<close> denotes the smallest positive double, \<open>2^-1074\<close>. Two buys from
  the freshly loaded state, the first with that percentage, then a sell of 100 percent.
\<close>

definition tinyPercentage :: real where
  "tinyPercentage = 1 / 2 ^ 1074"

definition afterTinyBuy :: GameState where
  "afterTinyBuy = snd (buy 2000 2001 2002 tinyPercentage freshState)"

definition afterSecondBuy :: GameState where
  "afterSecondBuy = snd (buy 3000 3001 3002 50 afterTinyBuy)"

definition afterFullSell :: GameState where
  "afterFullSell = snd (sell 4000 4001 4002 100 afterSecondBuy)"

section \<open>Shared lemmas\<close>

lemma completeTurn_error:
  "completeTurn act d now s = (Some e, s') \<Longrightarrow> s' = s"
  by (auto simp: completeTurn_def Let_def split: sum.splits)

lemma completeTurn_keeps:
  "position (snd (completeTurn act d now s)) = position s"
  "holdingPeriods (snd (completeTurn act d now s)) = holdingPeriods s"
  "currentStock (snd (completeTurn act d now s)) = currentStock s"
  "cash (snd (completeTurn act d now s)) = cash s"
  "trades (snd (completeTurn act d now s)) = trades s"
  by (auto simp: completeTurn_def Let_def advanceBar_def recordTurnOutcome_def
           split: sum.splits option.splits)

lemma completeTurn_outcomes:
  "completeTurn act d now s = (r, s') \<Longrightarrow> turnOutcomes s' = turnOutcomes s @ [out] \<Longrightarrow>
   inferredPrediction out = inferPrediction (position s) \<and> action out = act"
  by (auto simp: completeTurn_def Let_def advanceBar_def recordTurnOutcome_def calculateOutcome_def
           split: sum.splits option.splits)

lemma recordTurnOutcome_win_run:
  "\<forall>out \<in> set outs. isWin out = Some True \<Longrightarrow> outs \<noteq> [] \<Longrightarrow>
   currentStreak (sessionStats (fold recordTurnOutcome outs s)) =
     (if currentStreak (sessionStats s) > 0 then currentStreak (sessionStats s) else 0)
       + int (length outs)
   \<and> bestStreak (sessionStats (fold recordTurnOutcome outs s)) \<ge>
     (if currentStreak (sessionStats s) > 0 then currentStreak (sessionStats s) else 0)
       + int (length outs)"
proof (induction outs arbitrary: s)
  case Nil
  then show ?case by simp
next
  case (Cons a outs)
  show ?case
  proof (cases "outs = []")
    case True
    with Cons.prems show ?thesis
      by (simp add: recordTurnOutcome_def recordStats_def Let_def)
  next
    case False
    from Cons.prems have w: "isWin a = Some True"
      and r: "\<forall>out \<in> set outs. isWin out = Some True"
      by simp_all
    from Cons.IH[OF r False, of "recordTurnOutcome a s"] w show ?thesis
      by (simp add: recordTurnOutcome_def recordStats_def Let_def split: if_splits)
  qed
qed

lemma completeTurn_ok:
  assumes "currentStock s = Some stock" "bar_at (bars stock) (currentBarIndex s) = Some b"
  shows "\<exists>s'. completeTurn act d now s = (None, s') \<and> position s' = position s
    \<and> cash s' = cash s \<and> holdingPeriods s' = holdingPeriods s \<and> trades s' = trades s
    \<and> currentStock s' = currentStock s \<and> currentBarIndex s' = currentBarIndex s + 1"
  using assms
  by (auto simp: completeTurn_def calculateOutcome_def Let_def advanceBar_def
        recordTurnOutcome_def split: option.splits)

lemma bar_at_between:
  "bar_at bs i = Some a \<Longrightarrow> bar_at bs (i + 2) = Some c \<Longrightarrow> \<exists>b. bar_at bs (i + 1) = Some b"
  by (auto simp: bar_at_def split: if_splits)

lemma bar_at_demo:
  "0 \<le> i \<Longrightarrow> i < 200 \<Longrightarrow> bar_at (bars demoStock) i = Some (demoBar (nat i))"
  by (simp add: bar_at_def demoStock_def)

subsection \<open>The round trip on the demonstration instrument\<close>

lemma round_trip_steps:
  assumes stock: "currentStock s0 = Some stock"
    and b0: "bar_at (bars stock) (currentBarIndex s0) = Some b0" "close b0 = 100"
    and b2: "bar_at (bars stock) (currentBarIndex s0 + 2) = Some b2" "close b2 = 105"
    and fresh: "cash s0 = 10000" "position s0 = None" "holdingPeriods s0 = []"
  shows "\<exists>s1 s2 s3.
      buy t1 t2 t3 50 s0 = (None, s1)
      \<and> cash s0 - cash s1 = 5000 \<and> cash s1 = 5000
      \<and> position s1 = Some \<lparr>shares = 50, averageCost = Finite 100, entryBarIndex = currentBarIndex s0\<rparr>
      \<and> skip t4 t5 s1 = (None, s2)
      \<and> sell t6 t7 t8 100 s2 = (None, s3)
      \<and> trade_shares (last (trades s3)) * trade_price (last (trades s3)) = 5250
      \<and> cash s3 = 10250
      \<and> position s3 = None
      \<and> holdingPeriods s3 =
           [\<lparr>hp_entryBarIndex = currentBarIndex s0, exitBarIndex = Some (currentBarIndex s0 + 2),
             entryPrice = 100, exitPrice = Some 105\<rparr>]"
proof -
  let ?i = "currentBarIndex s0"
  let ?pos = "\<lparr>shares = 50, averageCost = Finite 100, entryBarIndex = ?i\<rparr>"
  let ?hp = "\<lparr>hp_entryBarIndex = ?i, exitBarIndex = None, entryPrice = 100, exitPrice = None\<rparr>"
  from b0(1) b2(1) obtain b1 where b1: "bar_at (bars stock) (?i + 1) = Some b1"
    by (blast dest: bar_at_between)
  let ?sA = "s0\<lparr>cash := 5000, position := Some ?pos,
       trades := trades s0 @ [\<lparr>trade_type = TradeBuy, trade_barIndex = ?i, trade_price = 100,
                                trade_shares = 50, trade_timestamp = t2\<rparr>],
       holdingPeriods := [?hp], lastAction := Some ActBuy\<rparr>"
  have buy_eq: "buy t1 t2 t3 50 s0 = completeTurn ActBuy (decisionTimeOf t1 s0) t3 ?sA"
    using stock b0 fresh by (simp add: buy_def Let_def decisionTimeOf_def fl_def)
  obtain s1 where s1: "buy t1 t2 t3 50 s0 = (None, s1)" "position s1 = Some ?pos"
      "cash s1 = 5000" "holdingPeriods s1 = [?hp]" "currentStock s1 = Some stock"
      "currentBarIndex s1 = ?i + 1"
    using completeTurn_ok [of ?sA stock b0 ActBuy "decisionTimeOf t1 s0" t3] stock b0
    unfolding buy_eq by auto
  have skip_eq: "skip t4 t5 s1 =
      completeTurn ActSkip (decisionTimeOf t4 s1) t5 (s1\<lparr>lastAction := Some ActSkip\<rparr>)"
    using s1 by (simp add: skip_def)
  obtain s2 where s2: "skip t4 t5 s1 = (None, s2)" "position s2 = Some ?pos"
      "cash s2 = 5000" "holdingPeriods s2 = [?hp]" "currentStock s2 = Some stock"
      "currentBarIndex s2 = ?i + 2"
    using completeTurn_ok [of "s1\<lparr>lastAction := Some ActSkip\<rparr>" stock b1 ActSkip
        "decisionTimeOf t4 s1" t5] s1 b1
    unfolding skip_eq by auto
  let ?sB = "s2\<lparr>cash := 10250, position := None,
       trades := trades s2 @ [\<lparr>trade_type = TradeSell, trade_barIndex = ?i + 2,
                                trade_price = 105, trade_shares = 50, trade_timestamp = t7\<rparr>],
       holdingPeriods := [?hp\<lparr>exitBarIndex := Some (?i + 2), exitPrice := Some 105\<rparr>],
       lastAction := Some ActSell\<rparr>"
  have sell_eq: "sell t6 t7 t8 100 s2 = completeTurn ActSell (decisionTimeOf t6 s2) t8 ?sB"
    using s2 b2 by (simp add: sell_def Let_def closeLastHolding_def fl_def)
  obtain s3 where s3: "sell t6 t7 t8 100 s2 = (None, s3)" "position s3 = None"
      "cash s3 = 10250"
      "holdingPeriods s3 = [?hp\<lparr>exitBarIndex := Some (?i + 2), exitPrice := Some 105\<rparr>]"
      "trades s3 = trades ?sB"
    using completeTurn_ok [of ?sB stock b2 ActSell "decisionTimeOf t6 s2" t8] s2 b2
    unfolding sell_eq by auto
  show ?thesis
    using s1 s2 s3 fresh by simp
qed

lemma freshState_fields:
  "currentStock freshState = Some demoStock" "currentBarIndex freshState = 60"
  "cash freshState = 10000" "position freshState = None" "holdingPeriods freshState = []"
  "turnOutcomes freshState = []"
  by (simp_all add: freshState_def loadStock_def initialState_def INITIAL_CASH_def)

lemma demo_closes:
  "bar_at (bars demoStock) 60 = Some (demoBar 60)" "close (demoBar 60) = 100"
  "bar_at (bars demoStock) 62 = Some (demoBar 62)" "close (demoBar 62) = 105"
  by (simp_all add: bar_at_demo demoBar_def)

lemma demo_round_trip:
  "position afterBuy = Some \<lparr>shares = 50, averageCost = Finite 100, entryBarIndex = 60\<rparr>"
  "cash afterBuy = 5000"
  "cash afterSell = 10250"
  "position afterSell = None"
  "holdingPeriods afterSell =
     [\<lparr>hp_entryBarIndex = 60, exitBarIndex = Some 62, entryPrice = 100, exitPrice = Some 105\<rparr>]"
proof -
  have b2: "bar_at (bars demoStock) (currentBarIndex freshState + 2) = Some (demoBar 62)"
    by (simp add: freshState_fields demo_closes)
  have b0: "bar_at (bars demoStock) (currentBarIndex freshState) = Some (demoBar 60)"
    by (simp add: freshState_fields demo_closes)
  from round_trip_steps [OF freshState_fields(1) b0 demo_closes(2) b2 demo_closes(4)
       freshState_fields(3,4,5), of 2000 2001 2002 3000 3001 4000 4001 4002]
  obtain s1 s2 s3 where
    "buy 2000 2001 2002 50 freshState = (None, s1)" "cash s1 = 5000"
    "position s1 = Some \<lparr>shares = 50, averageCost = Finite 100, entryBarIndex = currentBarIndex freshState\<rparr>"
    "skip 3000 3001 s1 = (None, s2)" "sell 4000 4001 4002 100 s2 = (None, s3)"
    "cash s3 = 10250" "position s3 = None"
    "holdingPeriods s3 =
           [\<lparr>hp_entryBarIndex = currentBarIndex freshState,
             exitBarIndex = Some (currentBarIndex freshState + 2),
             entryPrice = 100, exitPrice = Some 105\<rparr>]"
    by blast
  then show "position afterBuy = Some \<lparr>shares = 50, averageCost = Finite 100, entryBarIndex = 60\<rparr>"
    "cash afterBuy = 5000"
    "cash afterSell = 10250"
    "position afterSell = None"
    "holdingPeriods afterSell =
     [\<lparr>hp_entryBarIndex = 60, exitBarIndex = Some 62, entryPrice = 100, exitPrice = Some 105\<rparr>]"
    by (simp_all add: afterBuy_def afterSkip_def afterSell_def freshState_fields)
qed

lemmas engine_defs = loadStock_def initialState_def INITIAL_CASH_def buy_def sell_def skip_def
  Let_def completeTurn_def calculateOutcome_def advanceBar_def recordTurnOutcome_def
  inferPrediction_def decisionTimeOf_def getDirection_def EPSILON_def initialSessionStats_def
  recordStats_def closeLastHolding_def fl_def

lemma demo_bars: "bar_at (bars demoStock) 60 = Some (demoBar 60)"
  "bar_at (bars demoStock) 61 = Some (demoBar 61)"
  "bar_at (bars demoStock) 62 = Some (demoBar 62)"
  "bar_at (bars demoStock) 63 = Some (demoBar 63)"
  by (simp_all add: bar_at_demo)

lemma demo_outcomes_buy:
  "map (\<lambda>out. (action out, inferredPrediction out)) (turnOutcomes afterBuy) = [(ActBuy, Up)]"
  by (simp add: afterBuy_def freshState_def engine_defs demo_bars demoBar_def)

lemma demo_outcomes_sell:
  "map (\<lambda>out. (action out, inferredPrediction out)) (turnOutcomes afterSell)
     = [(ActBuy, Up), (ActSkip, Up), (ActSell, Down)]"
  by (simp add: afterSell_def afterSkip_def afterBuy_def freshState_def engine_defs demo_bars demoBar_def)


lemma inferPrediction_alt:
  "inferPrediction pos = (if (\<exists>p. pos = Some p \<and> 0 < shares p) then Up else Down)"
  by (cases pos) (simp_all add: inferPrediction_def)

lemma completeTurn_prediction:
  assumes "turnOutcomes (snd (completeTurn act d now sX)) = turnOutcomes s @ [out]"
    and "turnOutcomes sX = turnOutcomes s"
  shows "inferredPrediction out = inferPrediction (position (snd (completeTurn act d now sX)))"
proof -
  have "completeTurn act d now sX =
      (fst (completeTurn act d now sX), snd (completeTurn act d now sX))" by simp
  from completeTurn_outcomes [OF this] assms show ?thesis
    by (simp add: completeTurn_keeps)
qed

lemma skip_turn_cases:
  assumes "P s"
    and "\<And>d sX. turnOutcomes sX = turnOutcomes s \<Longrightarrow> P (snd (completeTurn ActSkip d n2 sX))"
  shows "P (snd (skip n1 n2 s))"
  using assms by (simp add: skip_def split: option.splits)

lemma buy_turn_cases:
  assumes "P s"
    and "\<And>d sX. turnOutcomes sX = turnOutcomes s \<Longrightarrow> P (snd (completeTurn ActBuy d n3 sX))"
  shows "P (snd (buy n1 n2 n3 pct s))"
  using assms by (simp add: buy_def Let_def split: option.splits)

lemma sell_turn_cases:
  assumes "P s"
    and "\<And>d sX. turnOutcomes sX = turnOutcomes s \<Longrightarrow> P (snd (completeTurn ActSell d n3 sX))"
  shows "P (snd (sell n1 n2 n3 pct s))"
  using assms by (simp add: sell_def Let_def split: option.splits)

lemma skip_position: "position (snd (skip n1 n2 s)) = position s"
  by (simp add: skip_def completeTurn_keeps split: option.splits)

lemma demo_buy_outcome:
  "\<exists>out. turnOutcomes afterBuy = turnOutcomes freshState @ [out] \<and> inferredPrediction out = Up"
  by (simp add: afterBuy_def freshState_def engine_defs demo_bars demoBar_def)

section \<open>Inferred prediction\<close>

text \<open>
  C1, as stated, fails. From the freshly loaded state, which holds no position, a buy of 50
  percent records the prediction up, not down; two turns later the sell of 100 percent,
  made while holding 50 shares, records down, not up.
\<close>

theorem inferred_prediction_counterexample:
  "position freshState = None
   \<and> map (\<lambda>out. (action out, inferredPrediction out)) (turnOutcomes afterBuy) = [(ActBuy, Up)]
   \<and> position afterSkip = Some \<lparr>shares = 50, averageCost = Finite 100, entryBarIndex = 60\<rparr>
   \<and> map (\<lambda>out. (action out, inferredPrediction out)) (turnOutcomes afterSell)
       = [(ActBuy, Up), (ActSkip, Up), (ActSell, Down)]"
  using demo_outcomes_buy demo_outcomes_sell
  by (simp add: freshState_fields afterSkip_def skip_position demo_round_trip)

text \<open>
  C1, amended. \<open>buy\<close> and \<open>sell\<close> write the new position into the store before
  \<open>calculateOutcome\<close> reads it. For every turn of skip, buy or sell that records an
  outcome, the inferred prediction of that outcome is up if and only if the position in
  the store after the action's position update (the position of the resulting state) has
  shares > 0, and down otherwise. For skip this is the position held before the action.
\<close>

theorem inferred_prediction_after_update:
  assumes "s' = snd (skip a1 a2 s) \<or> s' = snd (buy b1 b2 b3 pb s)
           \<or> s' = snd (sell c1 c2 c3 pc s)"
    and "turnOutcomes s' = turnOutcomes s @ [out]"
  shows "inferredPrediction out = (if (\<exists>p. position s' = Some p \<and> 0 < shares p) then Up else Down)
    \<and> (s' = snd (skip a1 a2 s) \<longrightarrow> position s' = position s)"
proof -
  let ?P = "\<lambda>s'. turnOutcomes s' = turnOutcomes s @ [out] \<longrightarrow>
              inferredPrediction out = inferPrediction (position s')"
  have base: "?P s" by simp
  have step: "?P (snd (completeTurn act d now sX))" if "turnOutcomes sX = turnOutcomes s"
    for act d now sX
    using completeTurn_prediction [of act d now sX s out] that by simp
  have "?P (snd (skip a1 a2 s))" using base step by (rule skip_turn_cases)
  moreover have "?P (snd (buy b1 b2 b3 pb s))" using base step by (rule buy_turn_cases)
  moreover have "?P (snd (sell c1 c2 c3 pc s))" using base step by (rule sell_turn_cases)
  ultimately have "inferredPrediction out = inferPrediction (position s')"
    using assms by blast
  then show ?thesis
    by (auto simp: inferPrediction_alt skip_position)
qed

theorem inferred_prediction_after_update_witness:
  "\<exists>out. afterBuy = snd (buy 2000 2001 2002 50 freshState)
     \<and> turnOutcomes afterBuy = turnOutcomes freshState @ [out]
     \<and> inferredPrediction out = Up
     \<and> (\<exists>p. position afterBuy = Some p \<and> 0 < shares p)"
proof -
  from demo_buy_outcome obtain out where
    out: "turnOutcomes afterBuy = turnOutcomes freshState @ [out]" by blast
  have e: "afterBuy = snd (buy 2000 2001 2002 50 freshState)"
    by (simp add: afterBuy_def)
  then have a: "afterBuy = snd (skip 0 0 freshState)
      \<or> afterBuy = snd (buy 2000 2001 2002 50 freshState)
      \<or> afterBuy = snd (sell 0 0 0 0 freshState)"
    by simp
  have pos: "\<exists>p. position afterBuy = Some p \<and> 0 < shares p"
    by (simp add: demo_round_trip)
  from inferred_prediction_after_update [OF a out] pos
  have "inferredPrediction out = Up" by simp
  with e out pos show ?thesis by blast
qed

section \<open>Loading an instrument\<close>

text \<open>
  C2. The claim asks \<open>loadStock\<close> to reset cash to the initial 10000. At the end of the
  round trip the cash is 10250; loading an instrument there resets position, trades,
  holding periods, outcomes and turn number, sets the bar index and the turn start time,
  and leaves the cash at 10250.
\<close>

theorem loadStock_keeps_cash:
  "cash afterSell = 10250
   \<and> cash (loadStock demoStock 60 5000 afterSell) = 10250
   \<and> INITIAL_CASH = 10000
   \<and> position (loadStock demoStock 60 5000 afterSell) = None
   \<and> trades (loadStock demoStock 60 5000 afterSell) = []
   \<and> holdingPeriods (loadStock demoStock 60 5000 afterSell) = []
   \<and> turnOutcomes (loadStock demoStock 60 5000 afterSell) = []
   \<and> turnNumber (loadStock demoStock 60 5000 afterSell) = 0
   \<and> currentBarIndex (loadStock demoStock 60 5000 afterSell) = 60
   \<and> turnStartTime (loadStock demoStock 60 5000 afterSell) = Some 5000"
  by (simp add: demo_round_trip loadStock_def INITIAL_CASH_def)

section \<open>Round trip\<close>

text \<open>
  C3. From a state with an instrument loaded, cash 10000, no position and no holding
  period, where the close at the current bar is 100 and the close two bars later is 105:
  buying 50 percent spends 5000 for 50 shares at average cost 100 and leaves cash 5000;
  after one skip, selling 100 percent yields a trade of 50 shares at 105, proceeds 5250,
  cash 10250, no position, and one holding period, closed, with entry price 100 and exit
  price 105. None of the three calls raises.
\<close>

theorem round_trip:
  assumes "currentStock s0 = Some stock"
    and "bar_at (bars stock) (currentBarIndex s0) = Some b0" "close b0 = 100"
    and "bar_at (bars stock) (currentBarIndex s0 + 2) = Some b2" "close b2 = 105"
    and "cash s0 = 10000" "position s0 = None" "holdingPeriods s0 = []"
  shows "\<exists>s1 s2 s3.
      buy t1 t2 t3 50 s0 = (None, s1)
      \<and> cash s0 - cash s1 = 5000 \<and> cash s1 = 5000
      \<and> position s1 = Some \<lparr>shares = 50, averageCost = Finite 100, entryBarIndex = currentBarIndex s0\<rparr>
      \<and> skip t4 t5 s1 = (None, s2)
      \<and> sell t6 t7 t8 100 s2 = (None, s3)
      \<and> trade_shares (last (trades s3)) * trade_price (last (trades s3)) = 5250
      \<and> cash s3 = 10250
      \<and> position s3 = None
      \<and> holdingPeriods s3 =
           [\<lparr>hp_entryBarIndex = currentBarIndex s0, exitBarIndex = Some (currentBarIndex s0 + 2),
             entryPrice = 100, exitPrice = Some 105\<rparr>]"
  using assms by (rule round_trip_steps)

theorem round_trip_witness:
  "currentStock freshState = Some demoStock
   \<and> length (bars demoStock) = 200 \<and> currentBarIndex freshState = 60
   \<and> cash freshState = 10000 \<and> position freshState = None
   \<and> (\<exists>s1 s2 s3.
      buy 2000 2001 2002 50 freshState = (None, s1)
      \<and> cash s1 = 5000
      \<and> position s1 = Some \<lparr>shares = 50, averageCost = Finite 100, entryBarIndex = 60\<rparr>
      \<and> skip 3000 3001 s1 = (None, s2)
      \<and> sell 4000 4001 4002 100 s2 = (None, s3)
      \<and> trade_shares (last (trades s3)) * trade_price (last (trades s3)) = 5250
      \<and> cash s3 = 10250
      \<and> position s3 = None
      \<and> holdingPeriods s3 =
           [\<lparr>hp_entryBarIndex = 60, exitBarIndex = Some 62,
             entryPrice = 100, exitPrice = Some 105\<rparr>])"
proof -
  have b2: "bar_at (bars demoStock) (currentBarIndex freshState + 2) = Some (demoBar 62)"
    by (simp add: freshState_fields demo_closes)
  have b0: "bar_at (bars demoStock) (currentBarIndex freshState) = Some (demoBar 60)"
    by (simp add: freshState_fields demo_closes)
  from round_trip [OF freshState_fields(1) b0 demo_closes(2) b2 demo_closes(4)
       freshState_fields(3,4,5), of 2000 2001 2002 3000 3001 4000 4001 4002]
  show ?thesis
    by (simp add: freshState_fields demoStock_def)
qed

section \<open>Guards and end of data\<close>

text \<open>
  C4. When a guard of \<open>skip\<close>, \<open>buy\<close> or \<open>sell\<close> fails (no instrument loaded; for buy
  and sell a percentage not in (0, 100]; for buy no cash; for sell no position or no
  shares), the operation returns without raising and the whole game state is the one it
  was called with.
\<close>

theorem guard_rejection_unchanged:
  "(currentStock s = None \<longrightarrow> skip n1 n2 s = (None, s))
   \<and> (currentStock s = None \<or> pct \<le> 0 \<or> pct > 100 \<or> cash s \<le> 0 \<longrightarrow>
        buy n1 n2 n3 pct s = (None, s))
   \<and> (currentStock s = None \<or> pct \<le> 0 \<or> pct > 100 \<or> position s = None
        \<or> (\<exists>p. position s = Some p \<and> shares p \<le> 0) \<longrightarrow>
        sell n1 n2 n3 pct s = (None, s))"
  by (auto simp: skip_def buy_def sell_def split: option.splits)

theorem guard_rejection_unchanged_witness:
  "currentStock initialState = None
   \<and> skip 5 6 initialState = (None, initialState)
   \<and> buy 5 6 7 50 initialState = (None, initialState)
   \<and> sell 5 6 7 50 initialState = (None, initialState)"
  using guard_rejection_unchanged [of initialState 5 6 50 7]
  by (simp add: initialState_def)

text \<open>
  C8. \<open>calculateOutcome\<close> returns null, without raising, whenever no instrument is loaded
  or the index after the current one is at or past the end of the bars; this includes a
  current index that is itself out of range. The function reads the state and returns a
  value only, so the state is untouched.
\<close>

theorem calculateOutcome_end_of_data:
  "(case currentStock s of None \<Rightarrow> True
    | Some stock \<Rightarrow> int (length (bars stock)) \<le> currentBarIndex s + 1) \<Longrightarrow>
   calculateOutcome s = Inr None"
  by (auto simp: calculateOutcome_def bar_at_def split: option.splits)

theorem calculateOutcome_end_of_data_witness:
  "length (bars demoStock) = 200
   \<and> calculateOutcome (freshState\<lparr>currentBarIndex := 199\<rparr>) = Inr None
   \<and> calculateOutcome (freshState\<lparr>currentBarIndex := 500\<rparr>) = Inr None
   \<and> calculateOutcome initialState = Inr None"
  using calculateOutcome_end_of_data [of "freshState\<lparr>currentBarIndex := 199\<rparr>"]
    calculateOutcome_end_of_data [of "freshState\<lparr>currentBarIndex := 500\<rparr>"]
    calculateOutcome_end_of_data [of initialState]
  by (simp add: freshState_fields demoStock_def initialState_def)

section \<open>Holding periods\<close>

text \<open>
  C5. The claim asks for at most one holding period with a null exit, and for such a
  period to exist exactly when there is a position. From the freshly loaded state a buy
  with percentage \<open>5e-324\<close> passes the guards, its spend and share count underflow to
  zero, and it stores a position of zero shares together with an open holding period. The
  next buy finds \<open>shares = 0\<close> and opens a second holding period, so two periods have a
  null exit. The sell of 100 percent then closes only the last one: the position is null
  and a period with a null exit remains.
\<close>

theorem underflow_buy_opens_second_period:
  "0 < tinyPercentage \<and> tinyPercentage \<le> 100
   \<and> position freshState = None \<and> holdingPeriods freshState = []
   \<and> map_option shares (position afterTinyBuy) = Some 0
   \<and> map_option averageCost (position afterTinyBuy) = Some NotFinite
   \<and> cash afterTinyBuy = 10000
   \<and> map exitBarIndex (holdingPeriods afterTinyBuy) = [None]
   \<and> map_option shares (position afterSecondBuy) = Some (5000 / 102)
   \<and> map exitBarIndex (holdingPeriods afterSecondBuy) = [None, None]
   \<and> length (filter (\<lambda>hp. exitBarIndex hp = None) (holdingPeriods afterSecondBuy)) = 2
   \<and> position afterFullSell = None
   \<and> map exitBarIndex (holdingPeriods afterFullSell) = [None, Some 62]"
  by (simp add: tinyPercentage_def afterTinyBuy_def afterSecondBuy_def afterFullSell_def
        freshState_def engine_defs demo_bars demoBar_def)

section \<open>Streaks\<close>

text \<open>
  C9. Recording a win sets the current streak to its successor when it was positive and to
  1 otherwise, and the best streak to the maximum of the old best and the new current
  streak. Recording a loss sets the current streak to its predecessor when it was negative
  and to -1 otherwise, and the worst streak to the minimum of the old worst and the new
  current streak. Recording a flat leaves the three streak fields alone and adds one to
  flats. So a run of N wins that starts from a streak that is not positive ends with
  current streak N and best streak at least N, and the first win after a loss gives
  current streak 1.
\<close>

theorem streak_algorithm:
  "(isWin out = Some True \<longrightarrow>
      currentStreak (sessionStats (recordTurnOutcome out s)) =
        (if currentStreak (sessionStats s) > 0 then currentStreak (sessionStats s) + 1 else 1)
      \<and> bestStreak (sessionStats (recordTurnOutcome out s)) =
        max (bestStreak (sessionStats s))
            (currentStreak (sessionStats (recordTurnOutcome out s))))
   \<and> (isWin out = Some False \<longrightarrow>
      currentStreak (sessionStats (recordTurnOutcome out s)) =
        (if currentStreak (sessionStats s) < 0 then currentStreak (sessionStats s) - 1 else - 1)
      \<and> worstStreak (sessionStats (recordTurnOutcome out s)) =
        min (worstStreak (sessionStats s))
            (currentStreak (sessionStats (recordTurnOutcome out s))))
   \<and> (isWin out = None \<longrightarrow>
      currentStreak (sessionStats (recordTurnOutcome out s)) = currentStreak (sessionStats s)
      \<and> bestStreak (sessionStats (recordTurnOutcome out s)) = bestStreak (sessionStats s)
      \<and> worstStreak (sessionStats (recordTurnOutcome out s)) = worstStreak (sessionStats s)
      \<and> flats (sessionStats (recordTurnOutcome out s)) = flats (sessionStats s) + 1)
   \<and> ((\<forall>w \<in> set outs. isWin w = Some True) \<and> outs \<noteq> []
        \<and> currentStreak (sessionStats s) \<le> 0 \<longrightarrow>
      currentStreak (sessionStats (fold recordTurnOutcome outs s)) = int (length outs)
      \<and> bestStreak (sessionStats (fold recordTurnOutcome outs s)) \<ge> int (length outs))
   \<and> (isWin l = Some False \<and> isWin out = Some True \<longrightarrow>
      currentStreak (sessionStats (recordTurnOutcome out (recordTurnOutcome l s))) = 1)"
proof -
  have run: "(\<forall>w \<in> set outs. isWin w = Some True) \<and> outs \<noteq> []
        \<and> currentStreak (sessionStats s) \<le> 0 \<longrightarrow>
      currentStreak (sessionStats (fold recordTurnOutcome outs s)) = int (length outs)
      \<and> bestStreak (sessionStats (fold recordTurnOutcome outs s)) \<ge> int (length outs)"
    using recordTurnOutcome_win_run [of outs s] by auto
  show ?thesis
    using run by (simp add: recordTurnOutcome_def recordStats_def Let_def)
qed

theorem streak_algorithm_witness:
  "isWin (sampleOutcome (Some True)) = Some True
   \<and> isWin (sampleOutcome (Some False)) = Some False
   \<and> currentStreak (sessionStats initialState) \<le> 0
   \<and> currentStreak (sessionStats (recordTurnOutcome (sampleOutcome (Some True)) initialState)) = 1
   \<and> currentStreak (sessionStats (fold recordTurnOutcome
        [sampleOutcome (Some True), sampleOutcome (Some True), sampleOutcome (Some True)]
        initialState)) = 3
   \<and> currentStreak (sessionStats (recordTurnOutcome (sampleOutcome (Some True))
        (recordTurnOutcome (sampleOutcome (Some False)) initialState))) = 1"
  using streak_algorithm
    [of "sampleOutcome (Some True)" initialState
        "[sampleOutcome (Some True), sampleOutcome (Some True), sampleOutcome (Some True)]"
        "sampleOutcome (Some False)"]
  by (simp add: sampleOutcome_def initialState_def initialSessionStats_def)

section \<open>Indicators\<close>

lemma map_nth_from:
  "map (\<lambda>i. f (xs ! i)) [n..<length xs] = map f (drop n xs)"
  by (rule nth_equalityI) simp_all

lemma emaLoop_times: "map line_time (emaLoop k e bs) = map time bs"
  by (induction bs arbitrary: e) (simp_all add: Let_def)

lemma rsiLoop_times: "map line_time (rsiLoop p g l zs) = map (\<lambda>z. time (snd (snd z))) zs"
  by (induction p g l zs rule: rsiLoop.induct) (simp_all add: Let_def)

lemma zip3_third:
  "length xs = length zs \<Longrightarrow> length ys = length zs \<Longrightarrow>
   map (\<lambda>z. f (snd (snd z))) (zip xs (zip ys zs)) = map f zs"
  by (rule nth_equalityI) simp_all

lemma gainsOf_length: "length (gainsOf bs) = length bs - 1"
  by (simp add: gainsOf_def)

lemma lossesOf_length: "length (lossesOf bs) = length bs - 1"
  by (simp add: lossesOf_def)

lemma calculateSMA_times:
  "1 \<le> period \<Longrightarrow>
   \<exists>out. calculateSMA bs period = Inr out
     \<and> map line_time out = map time (drop (nat period - 1) bs)"
  by (simp add: calculateSMA_def o_def map_nth_from)

lemma calculateBollingerBands_times:
  "1 \<le> period \<Longrightarrow>
   \<exists>b. calculateBollingerBands bs period k = Inr b
     \<and> map line_time (upper b) = map time (drop (nat period - 1) bs)
     \<and> map line_time (middle b) = map time (drop (nat period - 1) bs)
     \<and> map line_time (lower b) = map time (drop (nat period - 1) bs)"
  by (simp add: calculateBollingerBands_def Let_def o_def map_nth_from)

lemma calculateEMA_times:
  assumes "1 \<le> period" "period \<le> int (length bs)"
  shows "\<exists>out. calculateEMA bs period = Inr out
     \<and> map line_time out = map time (drop (nat period - 1) bs)"
proof -
  from assms have lt: "nat period - 1 < length bs" by linarith
  from assms have suc: "Suc (nat period - 1) = nat period" by linarith
  have "drop (nat period - 1) bs = bs ! (nat period - 1) # drop (nat period) bs"
    using Cons_nth_drop_Suc [OF lt] suc by simp
  with assms show ?thesis
    by (simp add: calculateEMA_def Let_def emaLoop_times)
qed

lemma calculateRSI_times:
  assumes "1 \<le> period" "period < int (length bs)"
  shows "\<exists>out. calculateRSI bs period = Inr out
     \<and> map line_time out = map time (drop (nat period) bs)"
proof -
  from assms have lt: "nat period < length bs" by linarith
  have d: "drop (nat period) bs = bs ! nat period # drop (Suc (nat period)) bs"
    using Cons_nth_drop_Suc [OF lt] by simp
  have z: "map (\<lambda>z. time (snd (snd z)))
             (zip (drop (nat period) (gainsOf bs))
                  (zip (drop (nat period) (lossesOf bs)) (drop (Suc (nat period)) bs)))
           = map time (drop (Suc (nat period)) bs)"
    by (rule zip3_third) (simp_all add: gainsOf_length lossesOf_length)
  from assms show ?thesis
    by (simp add: calculateRSI_def Let_def rsiLoop_times z d)
qed

text \<open>
  On a bar list that is too short \<open>calculateEMA\<close> and \<open>calculateRSI\<close> raise.
\<close>

lemma calculateEMA_short:
  "int (length bs) < period \<Longrightarrow> calculateEMA bs period = Inl TypeError"
  by (simp add: calculateEMA_def)

lemma calculateRSI_short:
  "0 < period \<Longrightarrow> int (length bs) \<le> period \<Longrightarrow> calculateRSI bs period = Inl TypeError"
  by (simp add: calculateRSI_def)

lemma risingBars_length: "length risingBars = 4"
  by (simp add: risingBars_def)

lemma risingBars_gains: "gainsOf risingBars = [1, 1, 1]"
  by (simp add: gainsOf_def risingBars_def upt_rec)

lemma risingBars_losses: "lossesOf risingBars = [0, 0, 0]"
  by (simp add: lossesOf_def risingBars_def upt_rec)

lemma risingBars_rsi:
  "calculateRSI risingBars 2 =
     Inr [\<lparr>line_time = ''2024-01-04'', line_value = 10000 / 101\<rparr>,
          \<lparr>line_time = ''2024-01-05'', line_value = 10000 / 101\<rparr>]"
  by (simp add: calculateRSI_def risingBars_gains risingBars_losses risingBars_length
        rsiValue_def Let_def)
     (simp add: risingBars_def rsiValue_def Let_def)

text \<open>
  C6, as stated, fails: on four bars with period 2 the first RSI value is dated at bar
  index 2, not at index 1, and EMA and RSI raise on a bar list that is too short instead
  of returning an empty series.
\<close>

theorem indicator_alignment_counterexample:
  "map line_time (projr (calculateRSI risingBars 2)) = [''2024-01-04'', ''2024-01-05'']
   \<and> map time (drop (2 - 1) risingBars) = [''2024-01-03'', ''2024-01-04'', ''2024-01-05'']
   \<and> calculateEMA (take 1 risingBars) 2 = Inl TypeError
   \<and> calculateRSI (take 2 risingBars) 2 = Inl TypeError"
proof -
  have "map time (drop (2 - 1) risingBars) =
      [''2024-01-03'', ''2024-01-04'', ''2024-01-05'']"
    by (simp add: risingBars_def)
  moreover have "calculateEMA (take 1 risingBars) 2 = Inl TypeError"
    by (simp add: calculateEMA_def risingBars_length)
  moreover have "calculateRSI (take 2 risingBars) 2 = Inl TypeError"
    by (simp add: calculateRSI_def risingBars_length)
  ultimately show ?thesis by (simp add: risingBars_rsi)
qed

text \<open>
  C6, amended. For a period of at least 1: the SMA series and the three Bollinger series
  carry exactly the times of the bars from index \<open>period - 1\<close> on, in order, so they have
  no value before that index and are empty when there are fewer than \<open>period\<close> bars. With
  at least \<open>period\<close> bars the EMA series carries the times of the bars from index
  \<open>period - 1\<close> on. With more than \<open>period\<close> bars the RSI series carries the times of the
  bars from index \<open>period\<close> on: it needs \<open>period\<close> price changes.
\<close>

theorem indicator_alignment:
  assumes "1 \<le> period"
  shows "(\<exists>out. calculateSMA bs period = Inr out
            \<and> map line_time out = map time (drop (nat period - 1) bs))
    \<and> (\<exists>b. calculateBollingerBands bs period k = Inr b
            \<and> map line_time (upper b) = map time (drop (nat period - 1) bs)
            \<and> map line_time (middle b) = map time (drop (nat period - 1) bs)
            \<and> map line_time (lower b) = map time (drop (nat period - 1) bs))
    \<and> (int (length bs) < period \<longrightarrow>
          calculateSMA bs period = Inr []
          \<and> calculateBollingerBands bs period k
              = Inr \<lparr>upper = [], middle = [], lower = []\<rparr>)
    \<and> (period \<le> int (length bs) \<longrightarrow>
          (\<exists>out. calculateEMA bs period = Inr out
            \<and> map line_time out = map time (drop (nat period - 1) bs)))
    \<and> (period < int (length bs) \<longrightarrow>
          (\<exists>out. calculateRSI bs period = Inr out
            \<and> map line_time out = map time (drop (nat period) bs)))"
proof (intro conjI impI)
  show "\<exists>out. calculateSMA bs period = Inr out
            \<and> map line_time out = map time (drop (nat period - 1) bs)"
    using assms by (rule calculateSMA_times)
  show "\<exists>b. calculateBollingerBands bs period k = Inr b
            \<and> map line_time (upper b) = map time (drop (nat period - 1) bs)
            \<and> map line_time (middle b) = map time (drop (nat period - 1) bs)
            \<and> map line_time (lower b) = map time (drop (nat period - 1) bs)"
    using assms by (rule calculateBollingerBands_times)
next
  assume "int (length bs) < period"
  then show "calculateSMA bs period = Inr []"
    by (simp add: calculateSMA_def)
next
  assume "int (length bs) < period"
  then show "calculateBollingerBands bs period k
      = Inr \<lparr>upper = [], middle = [], lower = []\<rparr>"
    by (simp add: calculateBollingerBands_def Let_def)
next
  assume "period \<le> int (length bs)"
  with assms show "\<exists>out. calculateEMA bs period = Inr out
            \<and> map line_time out = map time (drop (nat period - 1) bs)"
    by (rule calculateEMA_times)
next
  assume "period < int (length bs)"
  with assms show "\<exists>out. calculateRSI bs period = Inr out
            \<and> map line_time out = map time (drop (nat period) bs)"
    by (rule calculateRSI_times)
qed

theorem indicator_alignment_witness:
  "(1::int) \<le> 2
   \<and> (\<exists>out. calculateSMA risingBars 2 = Inr out
         \<and> map line_time out = [''2024-01-03'', ''2024-01-04'', ''2024-01-05''])
   \<and> (\<exists>out. calculateEMA risingBars 2 = Inr out
         \<and> map line_time out = [''2024-01-03'', ''2024-01-04'', ''2024-01-05''])
   \<and> (\<exists>out. calculateRSI risingBars 2 = Inr out
         \<and> map line_time out = [''2024-01-04'', ''2024-01-05''])
   \<and> calculateSMA (take 1 risingBars) 2 = Inr []"
proof -
  have p: "(1::int) \<le> 2" by simp
  have d: "map time (drop (Suc 0) risingBars) = [''2024-01-03'', ''2024-01-04'', ''2024-01-05'']"
    "map time (drop 2 risingBars) = [''2024-01-04'', ''2024-01-05'']"
    by (simp_all add: risingBars_def)
  from indicator_alignment [OF p, of risingBars 2]
       indicator_alignment [OF p, of "take 1 risingBars" 2]
  show ?thesis
    by (simp add: risingBars_length d)
qed

text \<open>
  C7. The claim asks for the value 100 whenever the average loss is zero. On the rising
  closes 1, 2, 3, 4 with period 2 the average loss is zero at the seed and after the
  smoothing step; the source sets \<open>rs\<close> (not the RSI) to 100 there, and both emitted
  values are \<open>100 - 100 / 101\<close>.
\<close>

theorem rsi_zero_loss_emits_below_100:
  "lossesOf risingBars = [0, 0, 0]
   \<and> calculateRSI risingBars 2 =
       Inr [\<lparr>line_time = ''2024-01-04'', line_value = 10000 / 101\<rparr>,
            \<lparr>line_time = ''2024-01-05'', line_value = 10000 / 101\<rparr>]
   \<and> rsiValue avgGain 0 = 10000 / 101"
  by (simp add: risingBars_losses risingBars_rsi rsiValue_def)

lemma vwapLoop_length: "length (vwapLoop T V bs) = length bs"
  by (induction bs arbitrary: T V) (simp_all add: Let_def)

lemma vwapLoop_nth:
  "i < length bs \<Longrightarrow>
   vwapLoop T V bs ! i =
     \<lparr>line_time = time (bs ! i),
      line_value =
        (if V + (\<Sum>b\<leftarrow>take (Suc i) bs. volume b) > 0
         then (T + (\<Sum>b\<leftarrow>take (Suc i) bs. (high b + low b + close b) / 3 * volume b))
              / (V + (\<Sum>b\<leftarrow>take (Suc i) bs. volume b))
         else (high (bs ! i) + low (bs ! i) + close (bs ! i)) / 3)\<rparr>"
proof (induction bs arbitrary: T V i)
  case Nil
  then show ?case by simp
next
  case (Cons b bs)
  show ?case
  proof (cases i)
    case 0
    then show ?thesis by (simp add: Let_def)
  next
    case (Suc j)
    with Cons.prems have j: "j < length bs" by simp
    show ?thesis
      using Cons.IH [OF j] Suc by (simp add: Let_def add.assoc)
  qed
qed

lemma volume_sum_nonneg:
  "\<forall>b \<in> set bs. 0 \<le> volume b \<Longrightarrow> 0 \<le> (\<Sum>b\<leftarrow>take n bs. volume b)"
  by (rule sum_list_nonneg) (auto dest: in_set_takeD)

text \<open>
  C10. \<open>calculateVWAP\<close> returns one point per bar for every bar list. With volumes that
  are not negative, the value at a bar is the bar's typical price when the cumulative
  volume up to and including it is zero, and otherwise the cumulative typical price times
  volume divided by the cumulative volume.
\<close>

theorem calculateVWAP_total:
  assumes "\<forall>b \<in> set bs. 0 \<le> volume b"
  shows "length (calculateVWAP bs) = length bs
    \<and> (\<forall>i < length bs.
         line_time (calculateVWAP bs ! i) = time (bs ! i)
         \<and> line_value (calculateVWAP bs ! i) =
             (if (\<Sum>b\<leftarrow>take (Suc i) bs. volume b) = 0
              then (high (bs ! i) + low (bs ! i) + close (bs ! i)) / 3
              else (\<Sum>b\<leftarrow>take (Suc i) bs. (high b + low b + close b) / 3 * volume b)
                   / (\<Sum>b\<leftarrow>take (Suc i) bs. volume b)))"
proof (intro conjI allI impI)
  show "length (calculateVWAP bs) = length bs"
    by (simp add: calculateVWAP_def vwapLoop_length)
next
  fix i assume i: "i < length bs"
  show "line_time (calculateVWAP bs ! i) = time (bs ! i)"
    using vwapLoop_nth [OF i, of 0 0] by (simp add: calculateVWAP_def)
next
  fix i assume i: "i < length bs"
  have "0 \<le> (\<Sum>b\<leftarrow>take (Suc i) bs. volume b)"
    using assms by (rule volume_sum_nonneg)
  then show "line_value (calculateVWAP bs ! i) =
             (if (\<Sum>b\<leftarrow>take (Suc i) bs. volume b) = 0
              then (high (bs ! i) + low (bs ! i) + close (bs ! i)) / 3
              else (\<Sum>b\<leftarrow>take (Suc i) bs. (high b + low b + close b) / 3 * volume b)
                   / (\<Sum>b\<leftarrow>take (Suc i) bs. volume b))"
    using vwapLoop_nth [OF i, of 0 0] by (simp add: calculateVWAP_def)
qed

theorem calculateVWAP_total_witness:
  "map volume risingBars = [0, 10, 10, 20]
   \<and> length (calculateVWAP risingBars) = 4
   \<and> line_value (calculateVWAP risingBars ! 0) = 1
   \<and> line_value (calculateVWAP risingBars ! 1) = 2
   \<and> line_value (calculateVWAP risingBars ! 2) = 5 / 2"
proof -
  have h: "\<forall>b \<in> set risingBars. 0 \<le> volume b" by (simp add: risingBars_def)
  show ?thesis using h calculateVWAP_total [OF h] by (simp add: risingBars_def)
qed

end
